theory Spec2Isabelle
  imports Main
begin

section \<open>Round configuration helpers of \<^verbatim>\<open>src/utils/rodadaConfig.ts\<close>\<close>

text \<open>
  The module reads and writes a remote store through the Supabase client: point lookups
  and upserts on the table \<^verbatim>\<open>configuracoes\<close> (unique column \<^verbatim>\<open>chave\<close>), an ordered read
  of \<^verbatim>\<open>historico_sabores_rodada\<close> and an ordered read of \<^verbatim>\<open>rodadas\<close>. Every function of
  the module is embedded as a function that takes the store and returns the settled
  promise together with the store afterwards.
\<close>

subsection \<open>Numbers and their string forms\<close>

text \<open>
  A TypeScript \<^verbatim>\<open>number\<close> that the module handles is an integer, not-a-number or
  an infinity: \<^verbatim>\<open>parseInt\<close> returns nothing else, and the counts are integers.
  \<open>Integer n\<close> stands for the number whose mathematical value is \<open>n\<close> (negative zero is
  not told apart from zero). The engine's numbers are doubles: they hold every integer
  up to \<open>2\<^sup>5\<^sup>3\<close> in absolute value, and beyond that only some, among them \<open>10\<^sup>2\<^sup>1\<close>. A
  digit string whose value is \<open>2\<^sup>1\<^sup>0\<^sup>2\<^sup>4 - 2\<^sup>9\<^sup>7\<^sup>0\<close> or more has no nearest double and is read as
  an infinity. Below that bound the engine's \<^verbatim>\<open>parseInt\<close> rounds to the nearest double
  and its \<^verbatim>\<open>toString\<close> prints the shortest digits that identify the double, where the
  definitions below keep the exact integer and the exact digits: the two agree up to
  \<open>2\<^sup>5\<^sup>3\<close>, and past it they still agree on the sign of what is read and on its being an
  integer.
\<close>

datatype number = Integer int | NaN | Infinity | NegInfinity

text \<open>
  Strings are lists of code units below 256. \<^verbatim>\<open>parseInt(s)\<close> with no radix: skip
  leading white space, read an optional sign, switch to radix 16 after \<^verbatim>\<open>0x\<close> or
  \<^verbatim>\<open>0X\<close>, read the longest run of digits of the radix, and answer not-a-number when
  that run is empty, and an infinity when its value is past the range of doubles.
\<close>

definition isWhiteSpace :: "char \<Rightarrow> bool" where
  "isWhiteSpace c =
     (c = CHR 0x09 \<or> c = CHR 0x0A \<or> c = CHR 0x0B \<or> c = CHR 0x0C \<or> c = CHR 0x0D
      \<or> c = CHR 0x20 \<or> c = CHR 0xA0)"

definition digitValue :: "char \<Rightarrow> nat" where
  "digitValue c =
     (let k = (of_char c :: nat) in
      if 48 \<le> k \<and> k \<le> 57 then k - 48
      else if 97 \<le> k \<and> k \<le> 122 then k - 87
      else if 65 \<le> k \<and> k \<le> 90 then k - 55
      else 36)"

definition isRadixDigit :: "nat \<Rightarrow> char \<Rightarrow> bool" where
  "isRadixDigit R c = (digitValue c < R)"

definition mathInt :: "nat \<Rightarrow> string \<Rightarrow> nat" where
  "mathInt R Z = foldl (\<lambda>a c. a * R + digitValue c) 0 Z"

definition parseInt :: "string \<Rightarrow> number" where
  "parseInt inputString =
     (let S = dropWhile isWhiteSpace inputString;
          sign = (if take 1 S = ''-'' then - 1 else 1 :: int);
          S1 = (if take 1 S = ''+'' \<or> take 1 S = ''-'' then drop 1 S else S);
          hex = (take 2 S1 = ''0x'' \<or> take 2 S1 = ''0X'');
          R = (if hex then 16 else 10 :: nat);
          S2 = (if hex then drop 2 S1 else S1);
          Z = takeWhile (isRadixDigit R) S2;
          m = int (mathInt R Z)
      in if Z = [] then NaN
         else if 2 ^ 1024 - 2 ^ 970 \<le> m then (if sign < 0 then NegInfinity else Infinity)
         else Integer (sign * m))"

text \<open>
  \<^verbatim>\<open>n.toString()\<close>: the decimal digits of an integer below \<open>10\<^sup>2\<^sup>1\<close> in absolute value,
  and from \<open>10\<^sup>2\<^sup>1\<close> on the exponent form (first digit, the other significant digits
  after a point, \<^verbatim>\<open>e+\<close> and the exponent); the names of the other numbers.
\<close>

fun digits :: "nat \<Rightarrow> string" where
  "digits n =
     (if n < 10 then [char_of (48 + n)]
      else digits (n div 10) @ [char_of (48 + n mod 10)])"

declare digits.simps [simp del]

definition exponential :: "nat \<Rightarrow> string" where
  "exponential n =
     (let ds = digits n;
          sig = rev (dropWhile (\<lambda>c. c = CHR ''0'') (rev ds))
      in take 1 sig @ (if drop 1 sig = [] then [] else CHR ''.'' # drop 1 sig)
         @ ''e+'' @ digits (length ds - 1))"

definition toString :: "number \<Rightarrow> string" where
  "toString x =
     (case x of
        NaN \<Rightarrow> ''NaN''
      | Infinity \<Rightarrow> ''Infinity''
      | NegInfinity \<Rightarrow> ''-Infinity''
      | Integer n \<Rightarrow>
          (if n < 0 then ''-'' else [])
          @ (if \<bar>n\<bar> < 10 ^ 21 then digits (nat \<bar>n\<bar>) else exponential (nat \<bar>n\<bar>)))"

text \<open>\<^verbatim>\<open>a >= b\<close> on numbers: false as soon as one side is not-a-number.\<close>

definition ge :: "number \<Rightarrow> number \<Rightarrow> bool" where
  "ge a b =
     (case a of
        NaN \<Rightarrow> False
      | Infinity \<Rightarrow> (case b of NaN \<Rightarrow> False | _ \<Rightarrow> True)
      | NegInfinity \<Rightarrow> (case b of NegInfinity \<Rightarrow> True | _ \<Rightarrow> False)
      | Integer x \<Rightarrow>
          (case b of
             NaN \<Rightarrow> False
           | Infinity \<Rightarrow> False
           | NegInfinity \<Rightarrow> True
           | Integer y \<Rightarrow> y \<le> x))"

subsection \<open>The store and the client\<close>

record configuracao =
  valor :: string
  descricao :: string

record sabor_rodada =
  rodada_id :: string
  ordem :: int

record rodada =
  numero :: int
  status :: string

record store =
  configuracoes :: "string \<rightharpoonup> configuracao"
  historico_sabores_rodada :: "sabor_rodada list"
  rodadas :: "rodada list"

text \<open>
  A request either resolves to a pair of \<^verbatim>\<open>data\<close> and \<^verbatim>\<open>error\<close>, or its promise is
  rejected and \<^verbatim>\<open>await\<close> throws. An error object carries a code.
\<close>

datatype error = Error (code: string) (message: string)

datatype 'a response = Response (data: "'a option") (error: "error option")

datatype 'a awaited = Fulfilled 'a | Rejected error

text \<open>
  The requests the module issues, and what can go wrong with one: the store reports an
  error in the response, or the request throws. \<open>faults\<close> says which requests of a
  call go wrong; a request that does not go wrong is answered from the tables.
\<close>

datatype request =
    SelectValor string
  | SelectOrdem string
  | SelectRodadas
  | Upsert string

datatype fault = Reports error | Throws error

type_synonym faults = "request \<Rightarrow> fault option"

definition no_faults :: faults where
  "no_faults = (\<lambda>q. None)"

text \<open>
  \<^verbatim>\<open>from('configuracoes').select('valor').eq('chave', k).single()\<close>: the one row, or the
  error \<^verbatim>\<open>PGRST116\<close> when there is no row.
\<close>

definition select_valor_single ::
    "faults \<Rightarrow> string \<Rightarrow> store \<Rightarrow> string response awaited \<times> store" where
  "select_valor_single f k s =
     (case f (SelectValor k) of
        Some (Throws e) \<Rightarrow> (Rejected e, s)
      | Some (Reports e) \<Rightarrow> (Fulfilled (Response None (Some e)), s)
      | None \<Rightarrow>
          (case configuracoes s k of
             None \<Rightarrow> (Fulfilled (Response None (Some (Error ''PGRST116'' ''no rows''))), s)
           | Some row \<Rightarrow> (Fulfilled (Response (Some (valor row)) None), s)))"

text \<open>
  \<^verbatim>\<open>from('historico_sabores_rodada').select('ordem').eq('rodada_id', r)
  .order('ordem', {ascending: false}).limit(1)\<close>.
\<close>

definition select_ordem_desc_limit1 ::
    "faults \<Rightarrow> string \<Rightarrow> store \<Rightarrow> int list response awaited \<times> store" where
  "select_ordem_desc_limit1 f r s =
     (case f (SelectOrdem r) of
        Some (Throws e) \<Rightarrow> (Rejected e, s)
      | Some (Reports e) \<Rightarrow> (Fulfilled (Response None (Some e)), s)
      | None \<Rightarrow>
          (Fulfilled (Response
             (Some (take 1 (rev (sort (map ordem
                (filter (\<lambda>h. rodada_id h = r) (historico_sabores_rodada s)))))))
             None), s))"

text \<open>\<^verbatim>\<open>from('rodadas').select('numero, status').order('numero', {ascending: false})\<close>.\<close>

definition select_rodadas_desc ::
    "faults \<Rightarrow> store \<Rightarrow> rodada list response awaited \<times> store" where
  "select_rodadas_desc f s =
     (case f SelectRodadas of
        Some (Throws e) \<Rightarrow> (Rejected e, s)
      | Some (Reports e) \<Rightarrow> (Fulfilled (Response None (Some e)), s)
      | None \<Rightarrow> (Fulfilled (Response (Some (rev (sort_key numero (rodadas s)))) None), s))"

text \<open>
  \<^verbatim>\<open>from('configuracoes').upsert({chave, valor, descricao}, {onConflict: 'chave'})\<close>:
  the row of that key is inserted or overwritten; a request that goes wrong writes
  nothing.
\<close>

definition upsert_configuracao ::
    "faults \<Rightarrow> string \<Rightarrow> string \<Rightarrow> string \<Rightarrow> store \<Rightarrow> unit response awaited \<times> store" where
  "upsert_configuracao f k v d s =
     (case f (Upsert k) of
        Some (Throws e) \<Rightarrow> (Rejected e, s)
      | Some (Reports e) \<Rightarrow> (Fulfilled (Response None (Some e)), s)
      | None \<Rightarrow>
          (Fulfilled (Response None None),
           s\<lparr>configuracoes := (configuracoes s)(k \<mapsto> \<lparr>valor = v, descricao = d\<rparr>)\<rparr>))"

subsection \<open>The module\<close>

record RodadaConfig =
  numeroPizzasPlanejadas :: number
  tempoLimitePorPizza :: number

definition chave_rodada :: "string \<Rightarrow> string" where
  "chave_rodada rodadaId = ''rodada_'' @ rodadaId @ ''_pizzas_planejadas''"

text \<open>
  \<^verbatim>\<open>obterConfigRodada\<close>. The result type of the source is \<^verbatim>\<open>RodadaConfig | null\<close>, hence
  the option. A rejected request is the \<^verbatim>\<open>catch\<close> branch.
\<close>

definition obterConfigRodada ::
    "faults \<Rightarrow> string \<Rightarrow> store \<Rightarrow> RodadaConfig option awaited \<times> store" where
  "obterConfigRodada f rodadaId s0 =
     (case select_valor_single f (chave_rodada rodadaId) s0 of
        (Rejected e, s1) \<Rightarrow> (Fulfilled (Some \<lparr>numeroPizzasPlanejadas = Integer 5,
                            tempoLimitePorPizza = Integer 0\<rparr>), s1)
      | (Fulfilled (Response (Some configEspecifica) None), s1) \<Rightarrow>
          (Fulfilled (Some \<lparr>numeroPizzasPlanejadas = parseInt configEspecifica,
                            tempoLimitePorPizza = Integer 0\<rparr>), s1)
      | (Fulfilled _, s1) \<Rightarrow>
     (case select_valor_single f ''pizzas_planejadas_padrao'' s1 of
        (Rejected e, s2) \<Rightarrow> (Fulfilled (Some \<lparr>numeroPizzasPlanejadas = Integer 5,
                            tempoLimitePorPizza = Integer 0\<rparr>), s2)
      | (Fulfilled (Response (Some configGlobal) None), s2) \<Rightarrow>
          (Fulfilled (Some \<lparr>numeroPizzasPlanejadas = parseInt configGlobal,
                            tempoLimitePorPizza = Integer 0\<rparr>), s2)
      | (Fulfilled _, s2) \<Rightarrow>
     (case select_ordem_desc_limit1 f rodadaId s2 of
        (Rejected e, s3) \<Rightarrow> (Fulfilled (Some \<lparr>numeroPizzasPlanejadas = Integer 5,
                            tempoLimitePorPizza = Integer 0\<rparr>), s3)
      | (Fulfilled (Response (Some (primeiro # _)) None), s3) \<Rightarrow>
          (Fulfilled (Some \<lparr>numeroPizzasPlanejadas = Integer primeiro,
                            tempoLimitePorPizza = Integer 0\<rparr>), s3)
      | (Fulfilled _, s3) \<Rightarrow>
          (Fulfilled (Some \<lparr>numeroPizzasPlanejadas = Integer 5,
                            tempoLimitePorPizza = Integer 0\<rparr>), s3))))"

text \<open>
  \<^verbatim>\<open>salvarConfigRodada\<close> and \<^verbatim>\<open>salvarLimiteRodadas\<close>: one upsert; a reported error is
  thrown, and whatever is thrown is logged and thrown again. The descriptions hold the
  code units \<open>0xFA\<close> and \<open>0xE1\<close> (u and a with an acute accent).
\<close>

definition salvarConfigRodada ::
    "faults \<Rightarrow> string \<Rightarrow> number \<Rightarrow> store \<Rightarrow> unit awaited \<times> store" where
  "salvarConfigRodada f rodadaId numeroPizzas s0 =
     (case upsert_configuracao f (chave_rodada rodadaId) (toString numeroPizzas)
             (''N'' @ [CHR 0xFA] @ ''mero de pizzas planejadas para a rodada '' @ rodadaId) s0 of
        (Rejected e, s1) \<Rightarrow> (Rejected e, s1)
      | (Fulfilled (Response _ (Some e)), s1) \<Rightarrow> (Rejected e, s1)
      | (Fulfilled (Response _ None), s1) \<Rightarrow> (Fulfilled (), s1))"

definition salvarLimiteRodadas ::
    "faults \<Rightarrow> number \<Rightarrow> store \<Rightarrow> unit awaited \<times> store" where
  "salvarLimiteRodadas f numeroRodadas s0 =
     (case upsert_configuracao f ''limite_total_rodadas'' (toString numeroRodadas)
             (''Limite m'' @ [CHR 0xE1] @ ''ximo de rodadas permitidas no jogo'') s0 of
        (Rejected e, s1) \<Rightarrow> (Rejected e, s1)
      | (Fulfilled (Response _ (Some e)), s1) \<Rightarrow> (Rejected e, s1)
      | (Fulfilled (Response _ None), s1) \<Rightarrow> (Fulfilled (), s1))"

text \<open>
  \<^verbatim>\<open>obterLimiteRodadas\<close>: an error whose code is not \<^verbatim>\<open>PGRST116\<close> is thrown into the
  \<^verbatim>\<open>catch\<close> branch, which answers 5.
\<close>

definition obterLimiteRodadas :: "faults \<Rightarrow> store \<Rightarrow> number awaited \<times> store" where
  "obterLimiteRodadas f s0 =
     (case select_valor_single f ''limite_total_rodadas'' s0 of
        (Rejected e, s1) \<Rightarrow> (Fulfilled (Integer 5), s1)
      | (Fulfilled (Response dados erro), s1) \<Rightarrow>
          (if (case erro of Some e \<Rightarrow> code e \<noteq> ''PGRST116'' | None \<Rightarrow> False)
           then (Fulfilled (Integer 5), s1)
           else (case dados of
                   Some v \<Rightarrow> (Fulfilled (parseInt v), s1)
                 | None \<Rightarrow> (Fulfilled (Integer 5), s1))))"

text \<open>
  \<^verbatim>\<open>verificarSeExcedeuLimiteRodadas\<close>. The source also counts all fetched rounds, for its
  log line only; the field \<open>totalRodadas\<close> of the result is given the finalized count.
\<close>

record VerificacaoLimite =
  excedeu :: bool
  totalRodadas :: number
  limite :: number

definition verificarSeExcedeuLimiteRodadas ::
    "faults \<Rightarrow> store \<Rightarrow> VerificacaoLimite awaited \<times> store" where
  "verificarSeExcedeuLimiteRodadas f s0 =
     (case obterLimiteRodadas f s0 of
        (Rejected e, s1) \<Rightarrow>
          (Fulfilled \<lparr>excedeu = False, totalRodadas = Integer 0, limite = Integer 5\<rparr>, s1)
      | (Fulfilled lim, s1) \<Rightarrow>
     (case select_rodadas_desc f s1 of
        (Rejected e, s2) \<Rightarrow>
          (Fulfilled \<lparr>excedeu = False, totalRodadas = Integer 0, limite = Integer 5\<rparr>, s2)
      | (Fulfilled (Response _ (Some e)), s2) \<Rightarrow>
          (Fulfilled \<lparr>excedeu = False, totalRodadas = Integer 0, limite = Integer 5\<rparr>, s2)
      | (Fulfilled (Response linhas None), s2) \<Rightarrow>
          (let rodadasFinalizadas =
                 (case linhas of
                    Some rs \<Rightarrow> int (length (filter (\<lambda>r. status r = ''finalizada'') rs))
                  | None \<Rightarrow> 0)
           in (Fulfilled \<lparr>excedeu = ge (Integer rodadasFinalizadas) lim,
                          totalRodadas = Integer rodadasFinalizadas,
                          limite = lim\<rparr>, s2))))"

subsection \<open>Vocabulary of the statements\<close>

text \<open>
  What a lookup delivers to the module: the \<open>valor\<close> of the row of key \<open>k\<close> when the
  request goes through and the row exists, and the greatest \<open>ordem\<close> recorded for a
  round when the request goes through and the round has records. A request that
  reports an error or throws delivers nothing.
\<close>

definition valor_lido :: "faults \<Rightarrow> store \<Rightarrow> string \<Rightarrow> string option" where
  "valor_lido f s k =
     (case f (SelectValor k) of
        None \<Rightarrow> map_option valor (configuracoes s k)
      | Some falha \<Rightarrow> None)"

definition ordens :: "store \<Rightarrow> string \<Rightarrow> int list" where
  "ordens s r = map ordem (filter (\<lambda>h. rodada_id h = r) (historico_sabores_rodada s))"

definition ordem_lida :: "faults \<Rightarrow> store \<Rightarrow> string \<Rightarrow> int option" where
  "ordem_lida f s r =
     (case f (SelectOrdem r) of
        None \<Rightarrow> (if ordens s r = [] then None else Some (Max (set (ordens s r))))
      | Some falha \<Rightarrow> None)"

definition lanca :: "faults \<Rightarrow> request \<Rightarrow> bool" where
  "lanca f q = (case f q of Some (Throws e) \<Rightarrow> True | Some (Reports e) \<Rightarrow> False | None \<Rightarrow> False)"


subsection \<open>Example stores\<close>

definition vazio :: store where
  "vazio = \<lparr>configuracoes = Map.empty, historico_sabores_rodada = [], rodadas = []\<rparr>"

definition exemplo :: store where
  "exemplo =
     \<lparr>configuracoes = [''limite_total_rodadas'' \<mapsto> \<lparr>valor = ''3'', descricao = []\<rparr>],
      historico_sabores_rodada =
        [\<lparr>rodada_id = ''r1'', ordem = 2\<rparr>, \<lparr>rodada_id = ''r1'', ordem = 4\<rparr>,
         \<lparr>rodada_id = ''r2'', ordem = 9\<rparr>],
      rodadas =
        [\<lparr>numero = 1, status = ''finalizada''\<rparr>, \<lparr>numero = 2, status = ''finalizada''\<rparr>,
         \<lparr>numero = 3, status = ''finalizada''\<rparr>, \<lparr>numero = 4, status = ''aguardando''\<rparr>]\<rparr>"

definition erro_rede :: error where
  "erro_rede = Error ''500'' ''network''"



section \<open>Properties\<close>

subsection \<open>Parsing the printed form of an integer\<close>

lemma char_of_digit:
  "char_of (48::nat) = CHR ''0''" "char_of (49::nat) = CHR ''1''" "char_of (50::nat) = CHR ''2''"
  "char_of (51::nat) = CHR ''3''" "char_of (52::nat) = CHR ''4''" "char_of (53::nat) = CHR ''5''"
  "char_of (54::nat) = CHR ''6''" "char_of (55::nat) = CHR ''7''" "char_of (56::nat) = CHR ''8''"
  "char_of (57::nat) = CHR ''9''"
  by code_simp+

lemma digitValue_char_of: "d < 10 \<Longrightarrow> digitValue (char_of (48 + d)) = d"
  by (simp add: digitValue_def)

lemma digit_char_cases:
  assumes "d < (10::nat)"
  shows "char_of (48 + d) \<in> set ''0123456789''"
proof -
  from assms have "d = 0 \<or> d = 1 \<or> d = 2 \<or> d = 3 \<or> d = 4 \<or> d = 5 \<or> d = 6 \<or> d = 7 \<or> d = 8 \<or> d = 9"
    by arith
  then show ?thesis
    by (elim disjE) (simp_all add: char_of_digit)
qed

lemma digits_nonempty: "digits n \<noteq> []"
  by (subst digits.simps) simp

lemma digits_set: "c \<in> set (digits n) \<Longrightarrow> c \<in> set ''0123456789''"
proof (induction n rule: digits.induct)
  case (1 n)
  show ?case
  proof (cases "n < 10")
    case True
    with "1.prems" have "c = char_of (48 + n)"
      by (subst (asm) digits.simps) simp
    with True show ?thesis using digit_char_cases by blast
  next
    case False
    with "1.prems" have "c \<in> set (digits (n div 10)) \<or> c = char_of (48 + n mod 10)"
      by (subst (asm) digits.simps) auto
    moreover have "char_of (48 + n mod 10) \<in> set ''0123456789''"
      by (rule digit_char_cases) simp
    ultimately show ?thesis using "1.IH" False by blast
  qed
qed

lemma mathInt_digits: "mathInt 10 (digits n) = n"
proof (induction n rule: digits.induct)
  case (1 n)
  show ?case
  proof (cases "n < 10")
    case True
    then show ?thesis
      by (subst digits.simps) (simp add: mathInt_def digitValue_char_of)
  next
    case False
    then have "mathInt 10 (digits n) = mathInt 10 (digits (n div 10)) * 10 + n mod 10"
      by (subst digits.simps) (simp add: mathInt_def digitValue_char_of)
    with "1.IH" False show ?thesis by simp
  qed
qed

lemma decimal_char_facts:
  assumes "c \<in> set ''0123456789''"
  shows "isRadixDigit 10 c" "\<not> isWhiteSpace c" "c \<noteq> CHR ''+''" "c \<noteq> CHR ''-''"
    "c \<noteq> CHR ''x''" "c \<noteq> CHR ''X''"
  using assms by (auto simp: isRadixDigit_def digitValue_def isWhiteSpace_def)

lemma parseInt_decimal:
  assumes ne: "S \<noteq> []" and dec: "\<And>x. x \<in> set S \<Longrightarrow> x \<in> set ''0123456789''"
  shows "parseInt S =
           (if 2 ^ 1024 - 2 ^ 970 \<le> int (mathInt 10 S) then Infinity
            else Integer (int (mathInt 10 S)))"
    and "parseInt (CHR ''-'' # S) =
           (if 2 ^ 1024 - 2 ^ 970 \<le> int (mathInt 10 S) then NegInfinity
            else Integer (- int (mathInt 10 S)))"
proof -
  have hd: "hd S \<in> set ''0123456789''"
    using ne dec by simp
  have dw: "dropWhile isWhiteSpace S = S"
    using ne decimal_char_facts(2)[OF hd] by (cases S) simp_all
  have sg: "take 1 S \<noteq> ''-''" "take 1 S \<noteq> ''+''"
    using ne decimal_char_facts(3,4)[OF hd] by (cases S; simp)+
  have nothex: "take 2 S \<noteq> ''0x''" "take 2 S \<noteq> ''0X''"
  proof -
    have "\<And>a b. take 2 S = [a, b] \<Longrightarrow> b \<in> set ''0123456789''"
      by (metis dec in_set_takeD list.set_intros(1,2))
    then show "take 2 S \<noteq> ''0x''" "take 2 S \<noteq> ''0X''"
      using decimal_char_facts(5,6) by blast+
  qed
  have tw: "takeWhile (isRadixDigit 10) S = S"
    using dec decimal_char_facts(1) by (metis takeWhile_eq_all_conv)
  show "parseInt S =
           (if 2 ^ 1024 - 2 ^ 970 \<le> int (mathInt 10 S) then Infinity
            else Integer (int (mathInt 10 S)))"
    unfolding parseInt_def Let_def using ne dw sg nothex by (simp add: tw)
  have dwm: "dropWhile isWhiteSpace (CHR ''-'' # S) = CHR ''-'' # S"
    by (simp add: isWhiteSpace_def)
  have tm: "take 1 (CHR ''-'' # S) = ''-''" "drop 1 (CHR ''-'' # S) = S"
    by simp_all
  show "parseInt (CHR ''-'' # S) =
           (if 2 ^ 1024 - 2 ^ 970 \<le> int (mathInt 10 S) then NegInfinity
            else Integer (- int (mathInt 10 S)))"
    unfolding parseInt_def Let_def dwm using ne nothex by (simp add: tw)
qed

lemma parseInt_digits:
  "int n < 2 ^ 1024 - 2 ^ 970 \<Longrightarrow> parseInt (digits n) = Integer (int n)"
  using parseInt_decimal(1)[OF digits_nonempty digits_set, of n] by (simp add: mathInt_digits)

lemma parseInt_minus_digits:
  "int n < 2 ^ 1024 - 2 ^ 970 \<Longrightarrow> parseInt (CHR ''-'' # digits n) = Integer (- int n)"
  using parseInt_decimal(2)[OF digits_nonempty digits_set, of n] by (simp add: mathInt_digits)

lemma parseInt_toString_Integer:
  assumes "\<bar>n\<bar> < 10 ^ 21"
  shows "parseInt (toString (Integer n)) = Integer n"
proof -
  have "(10::int) ^ 21 < 2 ^ 1024 - 2 ^ 970"
    by simp
  with assms have fin: "int (nat \<bar>n\<bar>) < 2 ^ 1024 - 2 ^ 970"
    by linarith
  show ?thesis
    using assms parseInt_digits [OF fin] parseInt_minus_digits [OF fin]
    by (cases "n < 0") (simp_all add: toString_def)
qed

lemma toString_1e21: "toString (Integer 1000000000000000000000) = ''1e+21''"
proof -
  have d: "digits 1000000000000000000000 = ''1000000000000000000000''"
    by (simp add: digits.simps char_of_digit)
  have "exponential 1000000000000000000000 = ''1e+21''"
    by (simp add: exponential_def d digits.simps char_of_digit)
  then show ?thesis by (simp add: toString_def)
qed

lemma parseInt_1e21: "parseInt ''1e+21'' = Integer 1"
  by code_simp

lemma mathInt_zeros: "foldl (\<lambda>a c. a * 10 + digitValue c) a (replicate k (CHR ''0'')) = a * 10 ^ k"
  by (induction k arbitrary: a) (simp_all add: digitValue_def)

lemma parseInt_past_double_range:
  "parseInt (CHR ''1'' # replicate 309 (CHR ''0'')) = Infinity"
proof -
  have d: "digitValue (CHR ''1'') = 1"
    by (simp add: digitValue_def)
  have m: "mathInt 10 (CHR ''1'' # replicate 309 (CHR ''0'')) = 10 ^ 309"
    unfolding mathInt_def foldl_Cons mathInt_zeros d by simp
  have "(2::int) ^ 1024 - 2 ^ 970 \<le> 10 ^ 309"
    by simp
  then show ?thesis
    by (subst parseInt_decimal(1)) (auto simp: m)
qed

subsection \<open>What the requests answer\<close>

lemma sorted_le_last:
  fixes ys :: "int list"
  shows "sorted ys \<Longrightarrow> y \<in> set ys \<Longrightarrow> y \<le> last ys"
  by (induction ys) auto

lemma last_sort_Max:
  fixes xs :: "int list"
  assumes "xs \<noteq> []"
  shows "last (sort xs) = Max (set xs)"
proof -
  have ne: "sort xs \<noteq> []"
    using assms by (metis length_sort length_0_conv)
  have "Max (set (sort xs)) = last (sort xs)"
  proof (rule Max_eqI)
    show "finite (set (sort xs))" by simp
    show "\<And>y. y \<in> set (sort xs) \<Longrightarrow> y \<le> last (sort xs)"
      by (rule sorted_le_last) simp_all
    show "last (sort xs) \<in> set (sort xs)"
      using ne by (rule last_in_set)
  qed
  then show ?thesis by simp
qed

lemma take1_rev_sort:
  fixes xs :: "int list"
  shows "take 1 (rev (sort xs)) = (if xs = [] then [] else [Max (set xs)])"
proof (cases "xs = []")
  case True then show ?thesis by simp
next
  case False
  then have ne: "rev (sort xs) \<noteq> []"
    by (metis length_sort length_0_conv rev_is_Nil_conv)
  then have "take 1 (rev (sort xs)) = [hd (rev (sort xs))]"
    by (cases "rev (sort xs)") simp_all
  then show ?thesis
    using False by (simp add: hd_rev last_sort_Max)
qed

lemma length_finalizadas_fetch:
  "length (filter P (rev (sort_key numero rs))) = length (filter P rs)"
  by (simp add: rev_filter [symmetric] filter_sort)

lemma select_ordem_cases:
  "select_ordem_desc_limit1 f r s =
     (case f (SelectOrdem r) of
        Some (Throws e) \<Rightarrow> (Rejected e, s)
      | Some (Reports e) \<Rightarrow> (Fulfilled (Response None (Some e)), s)
      | None \<Rightarrow> (Fulfilled (Response
            (Some (if ordens s r = [] then [] else [Max (set (ordens s r))])) None), s))"
  unfolding select_ordem_desc_limit1_def take1_rev_sort ordens_def by simp

lemma obterConfigRodada_resolve:
  "obterConfigRodada f r s =
     (Fulfilled (Some \<lparr>numeroPizzasPlanejadas =
        (if lanca f (SelectValor (chave_rodada r)) then Integer 5 else
         case valor_lido f s (chave_rodada r) of Some v \<Rightarrow> parseInt v | None \<Rightarrow>
        (if lanca f (SelectValor ''pizzas_planejadas_padrao'') then Integer 5 else
         case valor_lido f s ''pizzas_planejadas_padrao'' of Some v \<Rightarrow> parseInt v | None \<Rightarrow>
        (if lanca f (SelectOrdem r) then Integer 5 else
         case ordem_lida f s r of Some n \<Rightarrow> Integer n | None \<Rightarrow> Integer 5))),
        tempoLimitePorPizza = Integer 0\<rparr>), s)"
  unfolding obterConfigRodada_def select_ordem_cases select_valor_single_def
    lanca_def valor_lido_def ordem_lida_def
  by (simp split: option.split fault.split)

lemma obterLimiteRodadas_cases:
  "obterLimiteRodadas f s =
     (Fulfilled (case valor_lido f s ''limite_total_rodadas'' of
                   Some v \<Rightarrow> parseInt v
                 | None \<Rightarrow> Integer 5), s)"
  by (simp add: obterLimiteRodadas_def select_valor_single_def valor_lido_def
        split: option.split fault.split)

lemma verificarSeExcedeuLimiteRodadas_store:
  "snd (verificarSeExcedeuLimiteRodadas f s) = s"
  by (simp add: verificarSeExcedeuLimiteRodadas_def obterLimiteRodadas_cases
        select_rodadas_desc_def Let_def split: option.split fault.split)

subsection \<open>What the saves write\<close>

lemma chave_rodada_inj: "chave_rodada r = chave_rodada r' \<longleftrightarrow> r = r'"
  by (simp add: chave_rodada_def)

lemma chave_rodada_distinct:
  "chave_rodada r \<noteq> ''pizzas_planejadas_padrao''"
  "chave_rodada r \<noteq> ''limite_total_rodadas''"
  "''pizzas_planejadas_padrao'' \<noteq> chave_rodada r"
  "''limite_total_rodadas'' \<noteq> chave_rodada r"
  by (simp_all add: chave_rodada_def)

lemma salvarConfigRodada_cases:
  "salvarConfigRodada f r n s =
     (case f (Upsert (chave_rodada r)) of
        None \<Rightarrow> (Fulfilled (),
          s\<lparr>configuracoes := (configuracoes s)(chave_rodada r \<mapsto>
             \<lparr>valor = toString n,
              descricao = ''N'' @ [CHR 0xFA] @ ''mero de pizzas planejadas para a rodada '' @ r\<rparr>)\<rparr>)
      | Some (Reports e) \<Rightarrow> (Rejected e, s)
      | Some (Throws e) \<Rightarrow> (Rejected e, s))"
  by (simp add: salvarConfigRodada_def upsert_configuracao_def split: option.split fault.split)

lemma salvarLimiteRodadas_cases:
  "salvarLimiteRodadas f n s =
     (case f (Upsert ''limite_total_rodadas'') of
        None \<Rightarrow> (Fulfilled (),
          s\<lparr>configuracoes := (configuracoes s)(''limite_total_rodadas'' \<mapsto>
             \<lparr>valor = toString n,
              descricao = ''Limite m'' @ [CHR 0xE1] @ ''ximo de rodadas permitidas no jogo''\<rparr>)\<rparr>)
      | Some (Reports e) \<Rightarrow> (Rejected e, s)
      | Some (Throws e) \<Rightarrow> (Rejected e, s))"
  by (simp add: salvarLimiteRodadas_def upsert_configuracao_def split: option.split fault.split)

lemma salvarConfigRodada_ok:
  "fst (salvarConfigRodada f r n s) = Fulfilled () \<Longrightarrow> f (Upsert (chave_rodada r)) = None"
  by (simp add: salvarConfigRodada_cases split: option.splits fault.splits)

lemma salvarLimiteRodadas_ok:
  "fst (salvarLimiteRodadas f n s) = Fulfilled () \<Longrightarrow> f (Upsert ''limite_total_rodadas'') = None"
  by (simp add: salvarLimiteRodadas_cases split: option.splits fault.splits)

lemma valor_lido_upd:
  "k' \<noteq> k \<Longrightarrow>
   valor_lido g (s\<lparr>configuracoes := (configuracoes s)(k \<mapsto> linha)\<rparr>) k' = valor_lido g s k'"
  by (simp add: valor_lido_def split: option.split)

lemma valor_lido_upd_same:
  "g (SelectValor k) = None \<Longrightarrow>
   valor_lido g (s\<lparr>configuracoes := (configuracoes s)(k \<mapsto> linha)\<rparr>) k = Some (valor linha)"
  by (simp add: valor_lido_def)

lemma ordem_lida_upd:
  "ordem_lida g (s\<lparr>configuracoes := c\<rparr>) r = ordem_lida g s r"
  by (simp add: ordem_lida_def ordens_def split: option.split)

lemma nao_lanca: "g q = None \<Longrightarrow> \<not> lanca g q"
  by (simp add: lanca_def)

lemma obterConfigRodada_store: "snd (obterConfigRodada f r s) = s"
  by (simp add: obterConfigRodada_resolve)

lemma obterLimiteRodadas_store: "snd (obterLimiteRodadas f s) = s"
  by (simp add: obterLimiteRodadas_cases)

lemma salvarConfigRodada_store:
  "snd (salvarConfigRodada f r n s) =
     (if f (Upsert (chave_rodada r)) = None
      then s\<lparr>configuracoes := (configuracoes s)(chave_rodada r \<mapsto>
             \<lparr>valor = toString n,
              descricao = ''N'' @ [CHR 0xFA] @ ''mero de pizzas planejadas para a rodada '' @ r\<rparr>)\<rparr>
      else s)"
  by (simp add: salvarConfigRodada_cases split: option.split fault.split)

lemma salvarLimiteRodadas_store:
  "snd (salvarLimiteRodadas f n s) =
     (if f (Upsert ''limite_total_rodadas'') = None
      then s\<lparr>configuracoes := (configuracoes s)(''limite_total_rodadas'' \<mapsto>
             \<lparr>valor = toString n,
              descricao = ''Limite m'' @ [CHR 0xE1] @ ''ximo de rodadas permitidas no jogo''\<rparr>)\<rparr>
      else s)"
  by (simp add: salvarLimiteRodadas_cases split: option.split fault.split)

lemma obterConfigRodada_upd:
  assumes "chave_rodada r \<noteq> k" "''pizzas_planejadas_padrao'' \<noteq> k"
  shows "fst (obterConfigRodada g r (s\<lparr>configuracoes := (configuracoes s)(k \<mapsto> linha)\<rparr>)) =
         fst (obterConfigRodada g r s)"
  unfolding obterConfigRodada_resolve valor_lido_upd [OF assms(1)]
    valor_lido_upd [OF assms(2)] ordem_lida_upd
  by simp

lemma obterLimiteRodadas_upd:
  assumes "''limite_total_rodadas'' \<noteq> k"
  shows "fst (obterLimiteRodadas g (s\<lparr>configuracoes := (configuracoes s)(k \<mapsto> linha)\<rparr>)) =
         fst (obterLimiteRodadas g s)"
  unfolding obterLimiteRodadas_cases valor_lido_upd [OF assms] by simp

section \<open>The claims\<close>

subsection \<open>Resolution order of \<^verbatim>\<open>obterConfigRodada\<close>\<close>

text \<open>
  C1. On a store whose requests all go through, \<open>obterConfigRodada\<close> takes the planned
  count from the first source that has it, in this order: the entry
  \<^verbatim>\<open>rodada_{id}_pizzas_planejadas\<close>, the entry \<^verbatim>\<open>pizzas_planejadas_padrao\<close>, the
  greatest \<open>ordem\<close> among the records of the round, the constant 5. Whatever the requests
  do, the result carries \<open>tempoLimitePorPizza = 0\<close>.
\<close>

theorem obterConfigRodada_source_order:
  "fst (obterConfigRodada no_faults rodadaId s) =
     Fulfilled (Some \<lparr>numeroPizzasPlanejadas =
        (case configuracoes s (''rodada_'' @ rodadaId @ ''_pizzas_planejadas'') of
           Some especifica \<Rightarrow> parseInt (valor especifica)
         | None \<Rightarrow>
        (case configuracoes s ''pizzas_planejadas_padrao'' of
           Some global \<Rightarrow> parseInt (valor global)
         | None \<Rightarrow>
        (if map ordem (filter (\<lambda>h. rodada_id h = rodadaId) (historico_sabores_rodada s)) = []
         then Integer 5
         else Integer (Max (set (map ordem
                (filter (\<lambda>h. rodada_id h = rodadaId) (historico_sabores_rodada s)))))))),
        tempoLimitePorPizza = Integer 0\<rparr>)
   \<and> (\<exists>n. fst (obterConfigRodada f rodadaId s) =
          Fulfilled (Some \<lparr>numeroPizzasPlanejadas = n, tempoLimitePorPizza = Integer 0\<rparr>))"
  by (simp add: obterConfigRodada_resolve lanca_def valor_lido_def ordem_lida_def ordens_def
        no_faults_def chave_rodada_def split: option.split)

theorem obterConfigRodada_source_order_witness:
  "fst (obterConfigRodada no_faults ''r1'' exemplo) =
     Fulfilled (Some \<lparr>numeroPizzasPlanejadas = Integer 4, tempoLimitePorPizza = Integer 0\<rparr>)"
  using obterConfigRodada_source_order [of "''r1''" exemplo no_faults]
  by (simp add: exemplo_def)

subsection \<open>The limit check counts finalized rounds\<close>

text \<open>
  C2. When the read of \<^verbatim>\<open>rodadas\<close> goes through, \<open>verificarSeExcedeuLimiteRodadas\<close>
  answers \<open>excedeu = (finalized >= limit)\<close>, where \<open>finalized\<close> is the number of rounds
  whose status is \<^verbatim>\<open>finalizada\<close> and the limit is what \<open>obterLimiteRodadas\<close> returns; the
  field \<open>totalRodadas\<close> holds that finalized count, not the number of rounds.
\<close>

theorem verificarSeExcedeuLimiteRodadas_finalized_count:
  assumes "f SelectRodadas = None"
  shows "\<exists>lim. fst (obterLimiteRodadas f s) = Fulfilled lim \<and>
           fst (verificarSeExcedeuLimiteRodadas f s) =
             Fulfilled \<lparr>excedeu =
                 ge (Integer (int (length (filter (\<lambda>r. status r = ''finalizada'') (rodadas s))))) lim,
               totalRodadas =
                 Integer (int (length (filter (\<lambda>r. status r = ''finalizada'') (rodadas s)))),
               limite = lim\<rparr>"
  using assms
  by (simp add: verificarSeExcedeuLimiteRodadas_def obterLimiteRodadas_cases
        select_rodadas_desc_def length_finalizadas_fetch Let_def)

theorem verificarSeExcedeuLimiteRodadas_finalized_count_witness:
  "no_faults SelectRodadas = None \<and> length (rodadas exemplo) = 4 \<and>
   fst (verificarSeExcedeuLimiteRodadas no_faults exemplo) =
     Fulfilled \<lparr>excedeu = True, totalRodadas = Integer 3, limite = Integer 3\<rparr>"
proof -
  have h: "no_faults SelectRodadas = None"
    by (simp add: no_faults_def)
  have l: "fst (obterLimiteRodadas no_faults exemplo) = Fulfilled (Integer 3)"
    by code_simp
  from verificarSeExcedeuLimiteRodadas_finalized_count [of no_faults exemplo, OF h] l
  show ?thesis
    by (auto simp: h exemplo_def ge_def)
qed

subsection \<open>The planned count need not be positive\<close>




subsection \<open>A reported error moves on to the next source\<close>

text \<open>
  C4. When no request throws and a lookup of \<open>obterConfigRodada\<close> reports an error, the
  resolution goes on with the sources after it: after an error on the entry of the
  round, with the global entry, then the records, then 5; after an error on the global
  entry (the entry of the round having delivered nothing), with the records, then 5;
  after an error on the records (both entries having delivered nothing), with 5.
\<close>

theorem obterConfigRodada_reported_error_continues:
  assumes "\<And>q e. f q \<noteq> Some (Throws e)"
  shows
  "(f (SelectValor (chave_rodada rodadaId)) = Some (Reports e1) \<longrightarrow>
      fst (obterConfigRodada f rodadaId s) =
        Fulfilled (Some \<lparr>numeroPizzasPlanejadas =
          (case valor_lido f s ''pizzas_planejadas_padrao'' of
             Some v \<Rightarrow> parseInt v
           | None \<Rightarrow> (case ordem_lida f s rodadaId of
                        Some n \<Rightarrow> Integer n
                      | None \<Rightarrow> Integer 5)),
          tempoLimitePorPizza = Integer 0\<rparr>))
   \<and> (valor_lido f s (chave_rodada rodadaId) = None \<and>
      f (SelectValor ''pizzas_planejadas_padrao'') = Some (Reports e2) \<longrightarrow>
      fst (obterConfigRodada f rodadaId s) =
        Fulfilled (Some \<lparr>numeroPizzasPlanejadas =
          (case ordem_lida f s rodadaId of
             Some n \<Rightarrow> Integer n
           | None \<Rightarrow> Integer 5),
          tempoLimitePorPizza = Integer 0\<rparr>))
   \<and> (valor_lido f s (chave_rodada rodadaId) = None \<and>
      valor_lido f s ''pizzas_planejadas_padrao'' = None \<and>
      f (SelectOrdem rodadaId) = Some (Reports e3) \<longrightarrow>
      fst (obterConfigRodada f rodadaId s) =
        Fulfilled (Some \<lparr>numeroPizzasPlanejadas = Integer 5,
                          tempoLimitePorPizza = Integer 0\<rparr>))"
proof -
  have nt: "\<And>q. \<not> lanca f q"
    using assms by (auto simp: lanca_def split: option.splits fault.splits)
  show ?thesis
    by (simp add: obterConfigRodada_resolve nt valor_lido_def ordem_lida_def)
qed

theorem obterConfigRodada_reported_error_continues_witness:
  "fst (obterConfigRodada [SelectValor (chave_rodada ''r1'') \<mapsto> Reports erro_rede] ''r1'' exemplo) =
     Fulfilled (Some \<lparr>numeroPizzasPlanejadas = Integer 4, tempoLimitePorPizza = Integer 0\<rparr>)
   \<and> fst (obterConfigRodada [SelectValor ''pizzas_planejadas_padrao'' \<mapsto> Reports erro_rede]
            ''r1'' exemplo) =
     Fulfilled (Some \<lparr>numeroPizzasPlanejadas = Integer 4, tempoLimitePorPizza = Integer 0\<rparr>)
   \<and> fst (obterConfigRodada [SelectOrdem ''r1'' \<mapsto> Reports erro_rede] ''r1'' exemplo) =
     Fulfilled (Some \<lparr>numeroPizzasPlanejadas = Integer 5, tempoLimitePorPizza = Integer 0\<rparr>)"
proof -
  have a: "\<And>q e. [SelectValor (chave_rodada ''r1'') \<mapsto> Reports erro_rede] q \<noteq> Some (Throws e)"
    by simp
  have b: "\<And>q e. [SelectValor ''pizzas_planejadas_padrao'' \<mapsto> Reports erro_rede] q \<noteq> Some (Throws e)"
    by simp
  have c: "\<And>q e. [SelectOrdem ''r1'' \<mapsto> Reports erro_rede] q \<noteq> Some (Throws e)"
    by simp
  show ?thesis
    using obterConfigRodada_reported_error_continues
            [where f = "[SelectValor (chave_rodada ''r1'') \<mapsto> Reports erro_rede]"
               and rodadaId = "''r1''" and s = exemplo and ?e1.0 = erro_rede, OF a]
      obterConfigRodada_reported_error_continues
            [where f = "[SelectValor ''pizzas_planejadas_padrao'' \<mapsto> Reports erro_rede]"
               and rodadaId = "''r1''" and s = exemplo and ?e2.0 = erro_rede, OF b]
      obterConfigRodada_reported_error_continues
            [where f = "[SelectOrdem ''r1'' \<mapsto> Reports erro_rede]"
               and rodadaId = "''r1''" and s = exemplo and ?e3.0 = erro_rede, OF c]
    by (simp add: valor_lido_def ordem_lida_def ordens_def exemplo_def chave_rodada_def)
qed

subsection \<open>\<^verbatim>\<open>obterConfigRodada\<close> always returns a value\<close>

text \<open>
  C5. Whatever the requests do, \<open>obterConfigRodada\<close> is fulfilled with a configuration:
  it never rejects and never returns null. A request that throws when it is reached
  (the first lookup; the second after the first delivered nothing; the third after the
  first two delivered nothing) ends in the \<^verbatim>\<open>catch\<close> branch, which answers exactly
  \<open>{5, 0}\<close>.
\<close>

theorem obterConfigRodada_always_a_value:
  "(\<exists>c. fst (obterConfigRodada f rodadaId s) = Fulfilled (Some c))
   \<and> (f (SelectValor (chave_rodada rodadaId)) = Some (Throws e) \<longrightarrow>
      fst (obterConfigRodada f rodadaId s) =
        Fulfilled (Some \<lparr>numeroPizzasPlanejadas = Integer 5,
                          tempoLimitePorPizza = Integer 0\<rparr>))
   \<and> (valor_lido f s (chave_rodada rodadaId) = None \<and>
      f (SelectValor ''pizzas_planejadas_padrao'') = Some (Throws e) \<longrightarrow>
      fst (obterConfigRodada f rodadaId s) =
        Fulfilled (Some \<lparr>numeroPizzasPlanejadas = Integer 5,
                          tempoLimitePorPizza = Integer 0\<rparr>))
   \<and> (valor_lido f s (chave_rodada rodadaId) = None \<and>
      valor_lido f s ''pizzas_planejadas_padrao'' = None \<and>
      f (SelectOrdem rodadaId) = Some (Throws e) \<longrightarrow>
      fst (obterConfigRodada f rodadaId s) =
        Fulfilled (Some \<lparr>numeroPizzasPlanejadas = Integer 5,
                          tempoLimitePorPizza = Integer 0\<rparr>))"
  by (simp add: obterConfigRodada_resolve lanca_def)

theorem obterConfigRodada_always_a_value_witness:
  "fst (obterConfigRodada [SelectValor (chave_rodada ''r1'') \<mapsto> Throws erro_rede] ''r1'' exemplo) =
     Fulfilled (Some \<lparr>numeroPizzasPlanejadas = Integer 5, tempoLimitePorPizza = Integer 0\<rparr>)
   \<and> fst (obterConfigRodada [SelectValor ''pizzas_planejadas_padrao'' \<mapsto> Throws erro_rede]
            ''r1'' exemplo) =
     Fulfilled (Some \<lparr>numeroPizzasPlanejadas = Integer 5, tempoLimitePorPizza = Integer 0\<rparr>)
   \<and> fst (obterConfigRodada [SelectOrdem ''r1'' \<mapsto> Throws erro_rede] ''r1'' exemplo) =
     Fulfilled (Some \<lparr>numeroPizzasPlanejadas = Integer 5, tempoLimitePorPizza = Integer 0\<rparr>)"
  using obterConfigRodada_always_a_value
          [where f = "[SelectValor (chave_rodada ''r1'') \<mapsto> Throws erro_rede]"
             and rodadaId = "''r1''" and s = exemplo and e = erro_rede]
    obterConfigRodada_always_a_value
          [where f = "[SelectValor ''pizzas_planejadas_padrao'' \<mapsto> Throws erro_rede]"
             and rodadaId = "''r1''" and s = exemplo and e = erro_rede]
    obterConfigRodada_always_a_value
          [where f = "[SelectOrdem ''r1'' \<mapsto> Throws erro_rede]"
             and rodadaId = "''r1''" and s = exemplo and e = erro_rede]
  by (simp add: valor_lido_def exemplo_def chave_rodada_def)

subsection \<open>The round limit\<close>

text \<open>
  C6. \<open>obterLimiteRodadas\<close> returns the parsed value of the entry
  \<^verbatim>\<open>limite_total_rodadas\<close> when the lookup goes through and the entry exists, 5 when the
  lookup goes through and finds no row, and 5 when the lookup reports an error or
  throws; it is always fulfilled.
\<close>

theorem obterLimiteRodadas_value_or_default:
  "(f (SelectValor ''limite_total_rodadas'') = None \<and>
      configuracoes s ''limite_total_rodadas'' = Some linha
      \<longrightarrow> fst (obterLimiteRodadas f s) = Fulfilled (parseInt (valor linha)))
   \<and> (f (SelectValor ''limite_total_rodadas'') = None \<and>
      configuracoes s ''limite_total_rodadas'' = None
      \<longrightarrow> fst (obterLimiteRodadas f s) = Fulfilled (Integer 5))
   \<and> (f (SelectValor ''limite_total_rodadas'') = Some falha
      \<longrightarrow> fst (obterLimiteRodadas f s) = Fulfilled (Integer 5))
   \<and> (\<exists>lim. fst (obterLimiteRodadas f s) = Fulfilled lim)"
  by (cases falha)
     (auto simp: obterLimiteRodadas_def select_valor_single_def
           split: option.splits fault.splits)

theorem obterLimiteRodadas_value_or_default_witness:
  "fst (obterLimiteRodadas no_faults exemplo) = Fulfilled (Integer 3)
   \<and> fst (obterLimiteRodadas no_faults vazio) = Fulfilled (Integer 5)
   \<and> fst (obterLimiteRodadas [SelectValor ''limite_total_rodadas'' \<mapsto> Reports erro_rede] exemplo) =
       Fulfilled (Integer 5)
   \<and> fst (obterLimiteRodadas [SelectValor ''limite_total_rodadas'' \<mapsto> Throws erro_rede] exemplo) =
       Fulfilled (Integer 5)"
proof -
  have p: "parseInt ''3'' = Integer 3"
    by code_simp
  show ?thesis
    using obterLimiteRodadas_value_or_default
            [where f = no_faults and s = exemplo
               and linha = "\<lparr>valor = ''3'', descricao = []\<rparr>"]
      obterLimiteRodadas_value_or_default [where f = no_faults and s = vazio]
      obterLimiteRodadas_value_or_default
            [where f = "[SelectValor ''limite_total_rodadas'' \<mapsto> Reports erro_rede]"
               and s = exemplo and falha = "Reports erro_rede"]
      obterLimiteRodadas_value_or_default
            [where f = "[SelectValor ''limite_total_rodadas'' \<mapsto> Throws erro_rede]"
               and s = exemplo and falha = "Throws erro_rede"]
    by (simp add: no_faults_def exemplo_def vazio_def p)
qed

subsection \<open>Saving and reading back\<close>

text \<open>
  C7, as amended. The claim for every integer fails from \<open>10\<^sup>2\<^sup>1\<close> on: \<^verbatim>\<open>toString\<close> prints
  such a number in exponent form (\<^verbatim>\<open>1e+21\<close>) and \<^verbatim>\<open>parseInt\<close> reads the digits before the
  first character that is no digit, here \<open>1\<close>. What holds: for every integer \<open>n\<close> with
  \<open>|n| < 10\<^sup>2\<^sup>1\<close>, a fulfilled \<open>salvarConfigRodada\<close> of \<open>n\<close> followed by an
  \<open>obterConfigRodada\<close> of the same round whose first lookup goes through returns
  \<open>{n, 0}\<close>; and for every integer \<open>m\<close> with \<open>|m| < 10\<^sup>2\<^sup>1\<close>, a fulfilled
  \<open>salvarLimiteRodadas\<close> of \<open>m\<close> followed by an \<open>obterLimiteRodadas\<close> whose lookup goes
  through returns \<open>m\<close>.
\<close>

theorem save_then_get_round_trip:
  "(\<bar>n\<bar> < 10 ^ 21 \<and>
    fst (salvarConfigRodada f rodadaId (Integer n) s) = Fulfilled () \<and>
    g (SelectValor (chave_rodada rodadaId)) = None \<longrightarrow>
      fst (obterConfigRodada g rodadaId (snd (salvarConfigRodada f rodadaId (Integer n) s))) =
        Fulfilled (Some \<lparr>numeroPizzasPlanejadas = Integer n,
                          tempoLimitePorPizza = Integer 0\<rparr>))
   \<and> (\<bar>m\<bar> < 10 ^ 21 \<and>
    fst (salvarLimiteRodadas f (Integer m) s) = Fulfilled () \<and>
    g (SelectValor ''limite_total_rodadas'') = None \<longrightarrow>
      fst (obterLimiteRodadas g (snd (salvarLimiteRodadas f (Integer m) s))) =
        Fulfilled (Integer m))"
proof (intro conjI impI)
  assume a: "\<bar>n\<bar> < 10 ^ 21 \<and>
    fst (salvarConfigRodada f rodadaId (Integer n) s) = Fulfilled () \<and>
    g (SelectValor (chave_rodada rodadaId)) = None"
  then have up: "f (Upsert (chave_rodada rodadaId)) = None"
    using salvarConfigRodada_ok by blast
  from a have p: "parseInt (toString (Integer n)) = Integer n"
    using parseInt_toString_Integer by blast
  from a have g: "g (SelectValor (chave_rodada rodadaId)) = None"
    by blast
  show "fst (obterConfigRodada g rodadaId (snd (salvarConfigRodada f rodadaId (Integer n) s))) =
        Fulfilled (Some \<lparr>numeroPizzasPlanejadas = Integer n,
                          tempoLimitePorPizza = Integer 0\<rparr>)"
    by (simp add: salvarConfigRodada_cases up obterConfigRodada_resolve
          valor_lido_upd_same nao_lanca g p)
next
  assume a: "\<bar>m\<bar> < 10 ^ 21 \<and>
    fst (salvarLimiteRodadas f (Integer m) s) = Fulfilled () \<and>
    g (SelectValor ''limite_total_rodadas'') = None"
  then have up: "f (Upsert ''limite_total_rodadas'') = None"
    using salvarLimiteRodadas_ok by blast
  from a have p: "parseInt (toString (Integer m)) = Integer m"
    using parseInt_toString_Integer by blast
  from a have g: "g (SelectValor ''limite_total_rodadas'') = None"
    by blast
  show "fst (obterLimiteRodadas g (snd (salvarLimiteRodadas f (Integer m) s))) =
        Fulfilled (Integer m)"
    by (simp add: salvarLimiteRodadas_cases up obterLimiteRodadas_cases
          valor_lido_upd_same g p)
qed

theorem save_then_get_round_trip_witness:
  "fst (obterConfigRodada no_faults ''r1''
          (snd (salvarConfigRodada no_faults ''r1'' (Integer 7) vazio))) =
     Fulfilled (Some \<lparr>numeroPizzasPlanejadas = Integer 7, tempoLimitePorPizza = Integer 0\<rparr>)
   \<and> fst (obterLimiteRodadas no_faults (snd (salvarLimiteRodadas no_faults (Integer 10) vazio))) =
     Fulfilled (Integer 10)"
  using save_then_get_round_trip
          [where n = 7 and m = 10 and f = no_faults and g = no_faults
             and rodadaId = "''r1''" and s = vazio]
  by (simp add: no_faults_def salvarConfigRodada_cases salvarLimiteRodadas_cases)

theorem save_then_get_exponent_counterexample:
  "fst (salvarConfigRodada no_faults ''r1'' (Integer (10 ^ 21)) vazio) = Fulfilled ()
   \<and> fst (obterConfigRodada no_faults ''r1''
            (snd (salvarConfigRodada no_faults ''r1'' (Integer (10 ^ 21)) vazio))) =
       Fulfilled (Some \<lparr>numeroPizzasPlanejadas = Integer 1, tempoLimitePorPizza = Integer 0\<rparr>)
   \<and> fst (obterConfigRodada no_faults ''r1''
            (snd (salvarConfigRodada no_faults ''r1'' (Integer (10 ^ 21)) vazio))) \<noteq>
       Fulfilled (Some \<lparr>numeroPizzasPlanejadas = Integer (10 ^ 21),
                         tempoLimitePorPizza = Integer 0\<rparr>)
   \<and> fst (salvarLimiteRodadas no_faults (Integer (10 ^ 21)) vazio) = Fulfilled ()
   \<and> fst (obterLimiteRodadas no_faults
            (snd (salvarLimiteRodadas no_faults (Integer (10 ^ 21)) vazio))) =
       Fulfilled (Integer 1)"
  by (simp add: salvarConfigRodada_cases salvarLimiteRodadas_cases obterConfigRodada_resolve
        obterLimiteRodadas_cases no_faults_def lanca_def valor_lido_def toString_1e21
        parseInt_1e21)

subsection \<open>A failed read of the rounds\<close>

text \<open>
  C8. When the read of \<^verbatim>\<open>rodadas\<close> fails, by a reported error or by throwing,
  \<open>verificarSeExcedeuLimiteRodadas\<close> is fulfilled with exactly
  \<open>{excedeu = false, totalRodadas = 0, limite = 5}\<close>, whatever limit is stored.
\<close>

theorem verificarSeExcedeuLimiteRodadas_fetch_failure:
  assumes "f SelectRodadas = Some falha"
  shows "fst (verificarSeExcedeuLimiteRodadas f s) =
           Fulfilled \<lparr>excedeu = False, totalRodadas = Integer 0, limite = Integer 5\<rparr>"
  using assms
  by (cases falha)
     (simp_all add: verificarSeExcedeuLimiteRodadas_def obterLimiteRodadas_cases
        select_rodadas_desc_def)

theorem verificarSeExcedeuLimiteRodadas_fetch_failure_witness:
  "fst (verificarSeExcedeuLimiteRodadas [SelectRodadas \<mapsto> Reports erro_rede] exemplo) =
     Fulfilled \<lparr>excedeu = False, totalRodadas = Integer 0, limite = Integer 5\<rparr>
   \<and> fst (verificarSeExcedeuLimiteRodadas [SelectRodadas \<mapsto> Throws erro_rede] exemplo) =
     Fulfilled \<lparr>excedeu = False, totalRodadas = Integer 0, limite = Integer 5\<rparr>"
  using verificarSeExcedeuLimiteRodadas_fetch_failure
          [where f = "[SelectRodadas \<mapsto> Reports erro_rede]" and falha = "Reports erro_rede"
             and s = exemplo]
    verificarSeExcedeuLimiteRodadas_fetch_failure
          [where f = "[SelectRodadas \<mapsto> Throws erro_rede]" and falha = "Throws erro_rede"
             and s = exemplo]
  by simp

subsection \<open>The saves surface a failed upsert\<close>

text \<open>
  C9. \<open>salvarConfigRodada\<close> and \<open>salvarLimiteRodadas\<close> reject exactly when their upsert
  fails (reports an error or throws); when the upsert goes through they are fulfilled
  with no value.
\<close>

theorem salvar_rejects_iff_upsert_fails:
  "((\<exists>e. fst (salvarConfigRodada f rodadaId numeroPizzas s) = Rejected e)
      \<longleftrightarrow> f (Upsert (chave_rodada rodadaId)) \<noteq> None)
   \<and> (f (Upsert (chave_rodada rodadaId)) = None
      \<longrightarrow> fst (salvarConfigRodada f rodadaId numeroPizzas s) = Fulfilled ())
   \<and> ((\<exists>e. fst (salvarLimiteRodadas f numeroRodadas s) = Rejected e)
      \<longleftrightarrow> f (Upsert ''limite_total_rodadas'') \<noteq> None)
   \<and> (f (Upsert ''limite_total_rodadas'') = None
      \<longrightarrow> fst (salvarLimiteRodadas f numeroRodadas s) = Fulfilled ())"
  by (auto simp: salvarConfigRodada_cases salvarLimiteRodadas_cases
           split: option.splits fault.splits)

theorem salvar_rejects_iff_upsert_fails_witness:
  "fst (salvarConfigRodada no_faults ''r1'' (Integer 7) vazio) = Fulfilled ()
   \<and> fst (salvarLimiteRodadas no_faults (Integer 10) vazio) = Fulfilled ()
   \<and> (\<exists>e. fst (salvarConfigRodada [Upsert (chave_rodada ''r1'') \<mapsto> Reports erro_rede]
                ''r1'' (Integer 7) vazio) = Rejected e)
   \<and> (\<exists>e. fst (salvarLimiteRodadas [Upsert ''limite_total_rodadas'' \<mapsto> Throws erro_rede]
                (Integer 10) vazio) = Rejected e)"
  using salvar_rejects_iff_upsert_fails
          [where f = no_faults and rodadaId = "''r1''" and numeroPizzas = "Integer 7"
             and s = vazio and numeroRodadas = "Integer 10"]
    salvar_rejects_iff_upsert_fails
          [where f = "[Upsert (chave_rodada ''r1'') \<mapsto> Reports erro_rede]"
             and rodadaId = "''r1''" and numeroPizzas = "Integer 7"
             and s = vazio and numeroRodadas = "Integer 10"]
    salvar_rejects_iff_upsert_fails
          [where f = "[Upsert ''limite_total_rodadas'' \<mapsto> Throws erro_rede]"
             and rodadaId = "''r1''" and numeroPizzas = "Integer 7"
             and s = vazio and numeroRodadas = "Integer 10"]
  by (simp add: no_faults_def)

subsection \<open>What the operations leave alone\<close>

text \<open>
  C10. The three reads return the store as they found it. A save whose upsert goes
  through changes the row of its one key in \<^verbatim>\<open>configuracoes\<close> and nothing else, and a
  save whose upsert fails changes nothing. Hence \<open>salvarConfigRodada\<close> for a round
  changes neither what \<open>obterConfigRodada\<close> returns for another round nor what
  \<open>obterLimiteRodadas\<close> returns, and \<open>salvarLimiteRodadas\<close> changes what
  \<open>obterConfigRodada\<close> returns for no round.
\<close>

theorem reads_and_saves_frame:
  "snd (obterConfigRodada f rodadaId s) = s
   \<and> snd (obterLimiteRodadas f s) = s
   \<and> snd (verificarSeExcedeuLimiteRodadas f s) = s
   \<and> snd (salvarConfigRodada f rodadaId numeroPizzas s) =
       (if f (Upsert (chave_rodada rodadaId)) = None
        then s\<lparr>configuracoes := (configuracoes s)(chave_rodada rodadaId \<mapsto>
               \<lparr>valor = toString numeroPizzas,
                descricao = ''N'' @ [CHR 0xFA] @ ''mero de pizzas planejadas para a rodada ''
                            @ rodadaId\<rparr>)\<rparr>
        else s)
   \<and> snd (salvarLimiteRodadas f numeroRodadas s) =
       (if f (Upsert ''limite_total_rodadas'') = None
        then s\<lparr>configuracoes := (configuracoes s)(''limite_total_rodadas'' \<mapsto>
               \<lparr>valor = toString numeroRodadas,
                descricao = ''Limite m'' @ [CHR 0xE1] @ ''ximo de rodadas permitidas no jogo''\<rparr>)\<rparr>
        else s)
   \<and> (outra \<noteq> rodadaId \<longrightarrow>
        fst (obterConfigRodada g outra (snd (salvarConfigRodada f rodadaId numeroPizzas s))) =
        fst (obterConfigRodada g outra s))
   \<and> fst (obterLimiteRodadas g (snd (salvarConfigRodada f rodadaId numeroPizzas s))) =
       fst (obterLimiteRodadas g s)
   \<and> fst (obterConfigRodada g outra (snd (salvarLimiteRodadas f numeroRodadas s))) =
       fst (obterConfigRodada g outra s)"
proof (intro conjI impI)
  show "snd (obterConfigRodada f rodadaId s) = s"
    by (rule obterConfigRodada_store)
  show "snd (obterLimiteRodadas f s) = s"
    by (rule obterLimiteRodadas_store)
  show "snd (verificarSeExcedeuLimiteRodadas f s) = s"
    by (rule verificarSeExcedeuLimiteRodadas_store)
  show "fst (obterLimiteRodadas g (snd (salvarConfigRodada f rodadaId numeroPizzas s))) =
       fst (obterLimiteRodadas g s)"
    by (simp add: salvarConfigRodada_store obterLimiteRodadas_upd chave_rodada_distinct)
  show "fst (obterConfigRodada g outra (snd (salvarLimiteRodadas f numeroRodadas s))) =
       fst (obterConfigRodada g outra s)"
    by (simp add: salvarLimiteRodadas_store obterConfigRodada_upd chave_rodada_distinct)
  show "fst (obterConfigRodada g outra (snd (salvarConfigRodada f rodadaId numeroPizzas s))) =
        fst (obterConfigRodada g outra s)" if "outra \<noteq> rodadaId"
    using that
    by (simp add: salvarConfigRodada_store obterConfigRodada_upd chave_rodada_inj
          chave_rodada_distinct)
qed (rule salvarConfigRodada_store salvarLimiteRodadas_store)+

theorem reads_and_saves_frame_witness:
  "''r2'' \<noteq> ''r1''
   \<and> fst (obterConfigRodada no_faults ''r2''
            (snd (salvarConfigRodada no_faults ''r1'' (Integer 7) exemplo))) =
       Fulfilled (Some \<lparr>numeroPizzasPlanejadas = Integer 9, tempoLimitePorPizza = Integer 0\<rparr>)
   \<and> fst (obterLimiteRodadas no_faults
            (snd (salvarConfigRodada no_faults ''r1'' (Integer 7) exemplo))) =
       Fulfilled (Integer 3)
   \<and> fst (obterConfigRodada no_faults ''r2''
            (snd (salvarLimiteRodadas no_faults (Integer 10) exemplo))) =
       Fulfilled (Some \<lparr>numeroPizzasPlanejadas = Integer 9, tempoLimitePorPizza = Integer 0\<rparr>)
   \<and> snd (verificarSeExcedeuLimiteRodadas no_faults exemplo) = exemplo"
proof -
  have c: "fst (obterConfigRodada no_faults ''r2'' exemplo) =
       Fulfilled (Some \<lparr>numeroPizzasPlanejadas = Integer 9, tempoLimitePorPizza = Integer 0\<rparr>)"
    by (simp add: obterConfigRodada_resolve lanca_def valor_lido_def ordem_lida_def ordens_def
          no_faults_def chave_rodada_def exemplo_def)
  have l: "fst (obterLimiteRodadas no_faults exemplo) = Fulfilled (Integer 3)"
    by code_simp
  note t = reads_and_saves_frame
            [where f = no_faults and g = no_faults and rodadaId = "''r1''" and outra = "''r2''"
               and numeroPizzas = "Integer 7" and numeroRodadas = "Integer 10" and s = exemplo]
  have n: "''r2'' \<noteq> ''r1''"
    by simp
  from t n have 1: "fst (obterConfigRodada no_faults ''r2''
            (snd (salvarConfigRodada no_faults ''r1'' (Integer 7) exemplo))) =
       fst (obterConfigRodada no_faults ''r2'' exemplo)"
    by blast
  from t have 2: "fst (obterLimiteRodadas no_faults
            (snd (salvarConfigRodada no_faults ''r1'' (Integer 7) exemplo))) =
       fst (obterLimiteRodadas no_faults exemplo)"
    by blast
  from t have 3: "fst (obterConfigRodada no_faults ''r2''
            (snd (salvarLimiteRodadas no_faults (Integer 10) exemplo))) =
       fst (obterConfigRodada no_faults ''r2'' exemplo)"
    by blast
  from t have 4: "snd (verificarSeExcedeuLimiteRodadas no_faults exemplo) = exemplo"
    by blast
  show ?thesis
    unfolding 1 2 3 4 c l using n by simp
qed

end
